theory Spec2Isabelle
  imports Complex_Main
begin

section \<open>Go values\<close>

text \<open>
  A Go function either returns its results or panics. A panic is modelled as a value, so
  that every run of a function has an outcome that can be inspected.
\<close>

datatype panic =
    SliceBoundsOutOfRange int
  | PanicMessage string

datatype 'a go = Returned 'a | Panicked panic

text \<open>
  Go strings are byte sequences and \<open>len\<close> counts bytes. The slice expressions
  \<open>s[lo:]\<close> and \<open>s[:hi]\<close> panic when the bound is negative or beyond \<open>len(s)\<close>.
\<close>

definition slice_from :: "string \<Rightarrow> int \<Rightarrow> string go" where
  "slice_from s lo =
     (if lo < 0 \<or> int (length s) < lo then Panicked (SliceBoundsOutOfRange lo)
      else Returned (drop (nat lo) s))"

definition slice_to :: "string \<Rightarrow> int \<Rightarrow> string go" where
  "slice_to s hi =
     (if hi < 0 \<or> int (length s) < hi then Panicked (SliceBoundsOutOfRange hi)
      else Returned (take (nat hi) s))"

text \<open>
  \<open>strings.ReplaceAll(s, old, new)\<close> for a one-byte \<open>old\<close>: every occurrence of the
  byte is replaced by \<open>new\<close>.
\<close>

definition ReplaceAll :: "string \<Rightarrow> char \<Rightarrow> string \<Rightarrow> string" where
  "ReplaceAll s old new = concat (map (\<lambda>c. if c = old then new else [c]) s)"

text \<open>\<open>strings.HasPrefix\<close> and \<open>strings.Contains\<close>.\<close>

fun HasPrefix :: "string \<Rightarrow> string \<Rightarrow> bool" where
  "HasPrefix s [] = True"
| "HasPrefix [] (p # ps) = False"
| "HasPrefix (c # s) (p # ps) = (c = p \<and> HasPrefix s ps)"

fun Contains :: "string \<Rightarrow> string \<Rightarrow> bool" where
  "Contains [] substr = (substr = [])"
| "Contains (c # s) substr = (HasPrefix (c # s) substr \<or> Contains s substr)"

text \<open>\<open>time.Duration\<close> counts nanoseconds; the durations below stay far from 64 bits.\<close>

type_synonym Duration = int

definition Second :: Duration where
  "Second = 1000000000"

section \<open>HTTP responses, errors and the observable run\<close>

text \<open>
  Of an \<open>api.Response\<close> the code reads the status code, the status text, the body bytes
  and the \<open>Retry-After\<close> header; the header is kept as the number of seconds it
  carries, \<open>None\<close> when the response has none.
\<close>

record Response =
  StatusCode :: int
  Status :: string
  RetryAfterHeader :: "nat option"
  BodyAsBytes :: string

text \<open>
  Errors are values. \<open>ErrorString\<close> is an error made by \<open>fmt.Errorf\<close>;
  \<open>UnexpectedHttpStatusCodeError\<close> keeps the four arguments that \<open>Execute\<close> passes to
  \<open>customerrors.NewUnexpectedHttpStatusCodeError\<close>.
\<close>

datatype error =
    ErrorString string
  | UnexpectedHttpStatusCodeError "int list" int string string

text \<open>
  Modelled from the spec: the text of an \<open>UnexpectedHttpStatusCodeError\<close>. Package
  \<open>customerrors\<close> is not among the sources; the error "carries status code + body for
  diagnostics", so its text holds the status text and the body.
\<close>

definition Error :: "error \<Rightarrow> string" where
  "Error e =
     (case e of
        ErrorString m \<Rightarrow> m
      | UnexpectedHttpStatusCodeError expected code status body \<Rightarrow>
          ''Unexpected HTTP status code: '' @ status @ '' | '' @ body)"

text \<open>
  A \<open>context.Context\<close> as an operation finds it when it starts: live, canceled, or past
  its deadline. \<open>Err\<close> is \<open>ctx.Err()\<close>: nil for a live context, \<open>context.Canceled\<close>
  or \<open>context.DeadlineExceeded\<close> otherwise, with the texts Go gives them. A context
  keeps the state it has at the start of the operation; cancellation while an operation
  runs is not part of the model.
\<close>

datatype Context = ContextLive | ContextCanceled | ContextDeadlineExceeded


text \<open>
  The server is a script: \<open>srv k\<close> is the response to the \<open>k\<close>-th HTTP call that
  reaches it (counted from 0). The random source is a script as well: \<open>rnd k\<close> is the raw
  number behind the draw made after call \<open>k\<close>. A run is observed through the number of
  HTTP calls issued and the trace of calls and sleeps, in order.
\<close>

datatype event = HttpCall nat Response | Sleep Duration

record World =
  calls :: nat
  trace :: "event list"

definition doRequest :: "(nat \<Rightarrow> Response) \<Rightarrow> World \<Rightarrow> World" where
  "doRequest srv w =
     w\<lparr>calls := calls w + 1, trace := trace w @ [HttpCall (calls w) (srv (calls w))]\<rparr>"

definition sleep :: "Duration \<Rightarrow> World \<Rightarrow> World" where
  "sleep d w = w\<lparr>trace := trace w @ [Sleep d]\<rparr>"

section \<open>internal/api/client.go: the retry loop of Execute\<close>

text \<open>
  Modelled from the spec: the entries of the table after 401, which the source elides.
  The spec lists the retryable status codes as 401, 429, 500, 502, 503, 504.
  \<^verbatim>\<open>
  var retryableStatusCodes = []int{
      http.StatusUnauthorized,        // 401 is retryable because the token may have expired.
      // ...
  }
  \<close>
\<close>

definition retryableStatusCodes :: "int list" where
  "retryableStatusCodes = [401, 429, 500, 502, 503, 504]"

text \<open>
  \<^verbatim>\<open>
  func DefaultRetryAfter() time.Duration {
      return time.Duration((rand.Intn(10) + 10)) * time.Second
  }
  \<close>
  \<open>rand.Intn n\<close> yields a number in \<open>[0, n)\<close>; \<open>raw\<close> is the number it is reduced from.
\<close>

definition Intn :: "nat \<Rightarrow> nat \<Rightarrow> nat" where
  "Intn n raw = raw mod n"

definition DefaultRetryAfter :: "nat \<Rightarrow> Duration" where
  "DefaultRetryAfter raw = int (Intn 10 raw + 10) * Second"

text \<open>
  Modelled from the spec: \<open>retryAfter\<close>, which \<open>Execute\<close> calls and the sources do not
  hold. A \<open>Retry-After\<close> header is honoured, clamped to 120 seconds; without the header the
  wait is the default interval, which in the source is \<open>DefaultRetryAfter\<close>.
\<close>

definition retryAfter :: "Response \<Rightarrow> nat \<Rightarrow> Duration" where
  "retryAfter resp raw =
     (case RetryAfterHeader resp of
        Some s \<Rightarrow> int (min s 120) * Second
      | None \<Rightarrow> DefaultRetryAfter raw)"

text \<open>
  Modelled from the spec: the check of the acceptable status codes, which the source of
  \<open>Execute\<close> elides. "After receiving a response, if the status code is in the
  caller-supplied acceptable set, returns success; otherwise classifies via the Retry
  Controller." The callers rely on it: \<open>CreateWebsite\<close> reads the status code of a
  response that came back with a nil error.
\<close>

definition isAcceptable :: "int list \<Rightarrow> Response \<Rightarrow> bool" where
  "isAcceptable acceptableStatusCodes resp = (StatusCode resp \<in> set acceptableStatusCodes)"

text \<open>
  \<^verbatim>\<open>
  func (client *Client) Execute(ctx, scopes, method, url, headers, body,
          acceptableStatusCodes []int, responseObj any) (*Response, error) {
      // ...
      for {  // Infinite retry loop
          // ...
          isRetryable := array.Contains(retryableStatusCodes, resp.HttpResponse.StatusCode)
          if !isRetryable {
              return resp, customerrors.NewUnexpectedHttpStatusCodeError(acceptableStatusCodes,
                  resp.HttpResponse.StatusCode, resp.HttpResponse.Status, resp.BodyAsBytes)
          }
          waitFor := retryAfter(ctx, resp.HttpResponse)
          // ...
      }
  }
  \<close>
  The loop has no counter and no deadline, so it is a partial function: \<open>None\<close> is the
  run that never returns (no branch of the body returns \<open>None\<close> itself). Of the steps
  the source elides, token acquisition and the building and sending of the request are the
  HTTP call that the script answers, the check of the acceptable status codes is
  \<open>isAcceptable\<close>, and the wait after \<open>retryAfter\<close> is a sleep of \<open>waitFor\<close>.
\<close>

partial_function (option) Execute ::
  "(nat \<Rightarrow> Response) \<Rightarrow> (nat \<Rightarrow> nat) \<Rightarrow> int list \<Rightarrow> World \<Rightarrow>
     ((Response \<times> error option) \<times> World) option"
where
  "Execute srv rnd acceptableStatusCodes w =
     (let resp = srv (calls w); w1 = doRequest srv w in
      if isAcceptable acceptableStatusCodes resp then Some ((resp, None), w1)
      else if StatusCode resp \<notin> set retryableStatusCodes then
        Some ((resp, Some (UnexpectedHttpStatusCodeError acceptableStatusCodes
                 (StatusCode resp) (Status resp) (BodyAsBytes resp))), w1)
      else Execute srv rnd acceptableStatusCodes
             (sleep (retryAfter resp (rnd (calls w))) w1))"



section \<open>internal/services/rest/api_rest.go: ExecuteApiRequest\<close>

text \<open>
  \<^verbatim>\<open>
  func (client *client) ExecuteApiRequest(ctx, scope *string, url, method string, body *string,
          headers map[string]string, expectedStatusCodes []int) (*api.Response, error) {
      h := http.Header{}
      for k, v := range headers {
          h.Add(k, v)
      }
      if scope != nil {
          return client.Api.Execute(ctx, []string{*scope}, method, url, h, body,
              expectedStatusCodes, nil)
      }
      panic("scope or evironment_id must be provided")
  }
  \<close>
  The scope pointer is an option. The arguments that are only handed on to the HTTP layer
  (url, method, body, headers) are what the script answers and do not appear.
\<close>

definition ExecuteApiRequest ::
  "(nat \<Rightarrow> Response) \<Rightarrow> (nat \<Rightarrow> nat) \<Rightarrow> string option \<Rightarrow> int list \<Rightarrow> World \<Rightarrow>
     ((Response \<times> error option) \<times> World) go option"
where
  "ExecuteApiRequest srv rnd scope expectedStatusCodes w =
     (case scope of
        Some s \<Rightarrow> map_option Returned (Execute srv rnd expectedStatusCodes w)
      | None \<Rightarrow> Some (Panicked (PanicMessage ''scope or evironment_id must be provided'')))"

section \<open>Power Pages client: CreateWebsite\<close>

text \<open>
  \<^verbatim>\<open>
  resp, err := client.Api.Execute(ctx, nil, "POST", apiUrl.String(), nil, website,
      []int{http.StatusUnauthorized, http.StatusBadRequest, http.StatusAccepted,
            http.StatusNotFound}, nil)
  if err != nil {
      return err
  }
  if resp.HttpResponse.StatusCode != http.StatusAccepted {
      return fmt.Errorf("unexpected status code: %s", string(resp.BodyAsBytes))
  }
  return nil
  \<close>
\<close>

definition CreateWebsite ::
  "(nat \<Rightarrow> Response) \<Rightarrow> (nat \<Rightarrow> nat) \<Rightarrow> World \<Rightarrow> (error option \<times> World) option"
where
  "CreateWebsite srv rnd w =
     (case Execute srv rnd [401, 400, 202, 404] w of
        None \<Rightarrow> None
      | Some ((resp, err), w1) \<Rightarrow>
          (case err of
             Some e \<Rightarrow> Some (Some e, w1)
           | None \<Rightarrow>
               if StatusCode resp \<noteq> 202
               then Some (Some (ErrorString (''unexpected status code: '' @ BodyAsBytes resp)), w1)
               else Some (None, w1)))"

section \<open>Application user client: CreateApplicationUser\<close>

text \<open>
  The application user client calls \<open>(*api.ApiClient).Execute\<close> of package
  \<open>internal/powerplatform/api\<close>,
  \<^verbatim>\<open>client.Api.Execute(ctx, method, url, headers, body, acceptableStatusCodes, responseObj)\<close>,
  whose code is not among the sources. It is a parameter of everything below: given the
  context and the acceptable status codes, it returns a response (or nil) and an error (or
  nil) and leaves a new world, or never returns.
\<close>

type_synonym ApiExecute =
  "Context \<Rightarrow> int list \<Rightarrow> World \<Rightarrow> ((Response option \<times> error option) \<times> World) option"

text \<open>
  \<^verbatim>\<open>
  retryCount := 6 * 9 // 9 minutes of retries
  err := fmt.Errorf("")
  for retryCount > 0 {
      _, err = client.Api.Execute(ctx, "POST", apiUrl.String(), nil, applicationuserToCreate,
          []int{http.StatusOK}, nil)
      if err == nil || !strings.Contains(err.Error(), "userNotLicensed") {
          break
      }
      tflog.Debug(ctx, fmt.Sprintf("Error creating application user: %s", err.Error()))
      //lintignore:R018
      time.Sleep(10 * time.Second)
      retryCount--
  }
  \<close>
  The loop, with the counter and the last error as its state. \<open>time.Sleep\<close> takes no
  context: it is a sleep of its full duration.
\<close>

fun addUserRetry ::
  "ApiExecute \<Rightarrow> Context \<Rightarrow> nat \<Rightarrow> error option \<Rightarrow> World \<Rightarrow> (error option \<times> World) option"
where
  "addUserRetry apiExecute ctx 0 err w = Some (err, w)"
| "addUserRetry apiExecute ctx (Suc retryCount) err w =
     (case apiExecute ctx [200] w of
        None \<Rightarrow> None
      | Some ((resp, err1), w1) \<Rightarrow>
          (case err1 of
             None \<Rightarrow> Some (None, w1)
           | Some e \<Rightarrow>
               if Contains (Error e) ''userNotLicensed''
               then addUserRetry apiExecute ctx retryCount (Some e) (sleep (10 * Second) w1)
               else Some (Some e, w1)))"

text \<open>
  \<open>GetApplicationUserBySystemApplicationUserId\<close> asks for the environment
  (\<open>GetEnvironmentUrlById\<close>, through \<open>getEnvironment\<close>) and then for the user, each with
  \<open>[]int{http.StatusOK}\<close>; the DTO it returns is kept as the body it is decoded from.
\<close>

definition GetApplicationUserBySystemApplicationUserId ::
  "ApiExecute \<Rightarrow> Context \<Rightarrow> World \<Rightarrow> ((string option \<times> error option) \<times> World) option"
where
  "GetApplicationUserBySystemApplicationUserId apiExecute ctx w =
     (case apiExecute ctx [200] w of
        None \<Rightarrow> None
      | Some ((env, err), w1) \<Rightarrow>
          (case err of
             Some e \<Rightarrow> Some ((None, Some e), w1)
           | None \<Rightarrow>
               (case apiExecute ctx [200] w1 of
                  None \<Rightarrow> None
                | Some ((resp, err2), w2) \<Rightarrow>
                    (case err2 of
                       Some e \<Rightarrow> Some ((None, Some e), w2)
                     | None \<Rightarrow> Some ((map_option BodyAsBytes resp, None), w2)))))"

text \<open>
  \<^verbatim>\<open>
  if err != nil {
      return nil, err
  }
  applicationuser, err := client.GetApplicationUserBySystemApplicationUserId(ctx, ...)
  if err != nil {
      return nil, err
  }
  return applicationuser, nil
  \<close>
\<close>

definition CreateApplicationUser ::
  "ApiExecute \<Rightarrow> Context \<Rightarrow> World \<Rightarrow> ((string option \<times> error option) \<times> World) option"
where
  "CreateApplicationUser apiExecute ctx w =
     (case addUserRetry apiExecute ctx (6 * 9) (Some (ErrorString [])) w of
        None \<Rightarrow> None
      | Some (err, w1) \<Rightarrow>
          (case err of
             Some e \<Rightarrow> Some ((None, Some e), w1)
           | None \<Rightarrow> GetApplicationUserBySystemApplicationUserId apiExecute ctx w1))"

section \<open>internal/helpers/uri.go: BuildEnvironmentHostUri\<close>

text \<open>
  \<^verbatim>\<open>
  func BuildEnvironmentHostUri(environmentId, powerPlatformUrl string) string {
      envId := strings.ReplaceAll(environmentId, "-", "")
      realm := string(envId[len(envId)-2:])
      envId = envId[:len(envId)-2]
      return fmt.Sprintf("%s.%s.environment.%s", envId, realm, powerPlatformUrl)
  }
  \<close>
\<close>

definition BuildEnvironmentHostUri :: "string \<Rightarrow> string \<Rightarrow> string go" where
  "BuildEnvironmentHostUri environmentId powerPlatformUrl =
     (let envId = ReplaceAll environmentId (CHR ''-'') [] in
      case slice_from envId (int (length envId) - 2) of
        Panicked p \<Rightarrow> Panicked p
      | Returned realm \<Rightarrow>
          (case slice_to envId (int (length envId) - 2) of
             Panicked p \<Rightarrow> Panicked p
           | Returned envId' \<Rightarrow>
               Returned (envId' @ ''.'' @ realm @ ''.environment.'' @ powerPlatformUrl)))"

section \<open>The backoff formula of the specification\<close>

text \<open>
  The delay the specification asks for, in its own words:
  \<open>delay = min(maxDelay, base * 2^attempt) * (1 + jitterFraction)\<close>. It is stated here to
  be compared with \<open>DefaultRetryAfter\<close>; durations are in nanoseconds.
\<close>

definition exponentialBackoff :: "real \<Rightarrow> real \<Rightarrow> nat \<Rightarrow> real \<Rightarrow> real" where
  "exponentialBackoff base maxDelay attempt jitterFraction =
     min maxDelay (base * 2 ^ attempt) * (1 + jitterFraction)"

section \<open>The long-running operation poller\<close>

text \<open>
  Modelled from the spec: the states of the poller, whose code is not among the sources.
  "States \<open>{Created, Running, Succeeded, Failed, Canceled, TimedOut}\<close>. Initial state
  \<open>Created\<close> on receiving a 202/Accepted response with a Location/operation URL."
\<close>

datatype LroState = Created | Running | Succeeded | Failed | Canceled | TimedOut

text \<open>
  Modelled from the spec: a poll response, as far as the poller reads it. Each poll sends
  a GET to the operation URL and parses a status field; the field is kept parsed, as the
  phase of the operation descriptor (\<open>Running\<close>, \<open>Succeeded\<close>, \<open>Failed\<close>,
  \<open>Canceled\<close>).
\<close>

datatype OperationPhase = PhaseRunning | PhaseSucceeded | PhaseFailed | PhaseCanceled

record PollResponse =
  PollStatusCode :: int
  PollPhase :: OperationPhase
  PollBody :: string

text \<open>
  Modelled from the spec: the errors of the poller. \<open>OperationFailedError\<close> carries the
  failure detail the server reported; \<open>TimeoutError\<close> is a kind of its own.
\<close>

datatype LroError =
    OperationFailedError string
  | OperationCanceledError string
  | TimeoutError

text \<open>
  Modelled from the spec: the poller's own record. It keeps its state, the states it has
  been in (oldest first), the number of polls sent and the total time it has waited.
\<close>

record Poller =
  state :: LroState
  history :: "LroState list"
  polls :: nat
  waited :: Duration

definition newPoller :: Poller where
  "newPoller = \<lparr>state = Created, history = [Created], polls = 0, waited = 0\<rparr>"

definition enter :: "LroState \<Rightarrow> Poller \<Rightarrow> Poller" where
  "enter s p = p\<lparr>state := s, history := history p @ [s]\<rparr>"

text \<open>Modelled from the spec: the terminal phases of an operation.\<close>

definition terminal :: "LroState \<Rightarrow> bool" where
  "terminal s = (s = Succeeded \<or> s = Failed \<or> s = Canceled)"

text \<open>
  Modelled from the spec: the poll loop. "If status indicates completion, transition to
  \<open>Succeeded\<close>; if it indicates failure, transition to \<open>Failed\<close> and surface the
  server-provided error payload; if still in progress, remain in \<open>Running\<close> and sleep
  for a poll interval before the next poll. A configurable maximum total wait transitions
  to \<open>TimedOut\<close>. HTTP 409 during polling is treated as transient and does not
  terminate the loop." The first poll that finds the operation in progress is the
  transition from \<open>Created\<close> to \<open>Running\<close>. The loop is a partial function; \<open>None\<close>
  is the run that never returns.
\<close>

partial_function (option) pollUntilDone ::
  "(nat \<Rightarrow> PollResponse) \<Rightarrow> Duration \<Rightarrow> Duration \<Rightarrow> Poller \<Rightarrow>
     ((LroError + string) \<times> Poller) option"
where
  "pollUntilDone srv pollInterval maxWait p =
     (if maxWait \<le> waited p then Some (Inl TimeoutError, enter TimedOut p)
      else
        (let resp = srv (polls p); p1 = p\<lparr>polls := polls p + 1\<rparr> in
         if PollStatusCode resp = 409 \<or> PollPhase resp = PhaseRunning then
           pollUntilDone srv pollInterval maxWait
             ((enter Running p1)\<lparr>waited := waited p1 + pollInterval\<rparr>)
         else if PollPhase resp = PhaseSucceeded then
           Some (Inr (PollBody resp), enter Succeeded p1)
         else if PollPhase resp = PhaseFailed then
           Some (Inl (OperationFailedError (PollBody resp)), enter Failed p1)
         else Some (Inl (OperationCanceledError (PollBody resp)), enter Canceled p1)))"


section \<open>Scripts for concrete runs\<close>

text \<open>
  A response without a \<open>Retry-After\<close> header, a server that answers from a list and then
  repeats one response, and the world before the first call.
\<close>

definition reply :: "int \<Rightarrow> string \<Rightarrow> Response" where
  "reply code body =
     \<lparr>StatusCode = code, Status = [], RetryAfterHeader = None, BodyAsBytes = body\<rparr>"

definition script :: "Response list \<Rightarrow> Response \<Rightarrow> nat \<Rightarrow> Response" where
  "script rs r k = (if k < length rs then rs ! k else r)"

definition start :: World where
  "start = \<lparr>calls = 0, trace = []\<rparr>"

text \<open>
  The platform while the licence of a new user is still being assigned: its answer, the
  error made of it for a caller that accepts 200 only, and a callee for the application
  user client that makes one HTTP call and returns that error, whatever the context.
\<close>

definition notLicensed :: Response where
  "notLicensed = reply 403 ''userNotLicensed''"

definition notLicensedError :: error where
  "notLicensedError = UnexpectedHttpStatusCodeError [200] 403 [] ''userNotLicensed''"

definition stillUnlicensed :: ApiExecute where
  "stillUnlicensed ctx acceptableStatusCodes w =
     Some ((Some notLicensed, Some notLicensedError), doRequest (\<lambda>k. notLicensed) w)"

text \<open>Poll responses and scripted operation endpoints.\<close>

definition poll :: "int \<Rightarrow> OperationPhase \<Rightarrow> string \<Rightarrow> PollResponse" where
  "poll code phase body = \<lparr>PollStatusCode = code, PollPhase = phase, PollBody = body\<rparr>"

definition pollScript :: "PollResponse list \<Rightarrow> PollResponse \<Rightarrow> nat \<Rightarrow> PollResponse" where
  "pollScript rs r k = (if k < length rs then rs ! k else r)"

section \<open>Strings\<close>

text \<open>\<open>HasPrefix\<close> and \<open>Contains\<close> decide what their names say.\<close>

lemma HasPrefix_iff: "HasPrefix s p = (\<exists>q. s = p @ q)"
  by (induction s p rule: HasPrefix.induct) auto

lemma Contains_iff: "Contains s substr = (\<exists>p q. s = p @ substr @ q)"
proof (induction s)
  case Nil
  show ?case by auto
next
  case (Cons c s)
  show ?case
  proof
    assume "Contains (c # s) substr"
    then consider "HasPrefix (c # s) substr" | "Contains s substr"
      by auto
    then show "\<exists>p q. c # s = p @ substr @ q"
    proof cases
      case 1
      then obtain q where "c # s = substr @ q"
        by (auto simp: HasPrefix_iff)
      then have "c # s = [] @ substr @ q"
        by simp
      then show ?thesis by blast
    next
      case 2
      with Cons.IH obtain p q where "s = p @ substr @ q"
        by auto
      then have "c # s = (c # p) @ substr @ q"
        by simp
      then show ?thesis by blast
    qed
  next
    assume "\<exists>p q. c # s = p @ substr @ q"
    then obtain p q where pq: "c # s = p @ substr @ q"
      by blast
    show "Contains (c # s) substr"
    proof (cases p)
      case Nil
      with pq have "HasPrefix (c # s) substr"
        by (auto simp: HasPrefix_iff)
      then show ?thesis by simp
    next
      case (Cons a p')
      with pq have "s = p' @ substr @ q"
        by simp
      with Cons.IH have "Contains s substr"
        by blast
      then show ?thesis by simp
    qed
  qed
qed

lemma ReplaceAll_empty_filter: "ReplaceAll s old [] = filter (\<lambda>c. c \<noteq> old) s"
  by (induction s) (simp_all add: ReplaceAll_def)

section \<open>The three branches of the retry loop\<close>

lemmas run_defs = reply_def script_def start_def doRequest_def sleep_def
  isAcceptable_def retryableStatusCodes_def retryAfter_def DefaultRetryAfter_def Intn_def Second_def Let_def

lemma Execute_acceptable:
  assumes "StatusCode (srv (calls w)) \<in> set acc"
  shows "Execute srv rnd acc w = Some ((srv (calls w), None), doRequest srv w)"
  using assms by (subst Execute.simps) (simp add: Let_def isAcceptable_def)

lemma Execute_fatal:
  assumes "StatusCode (srv (calls w)) \<notin> set acc"
    and "StatusCode (srv (calls w)) \<notin> set retryableStatusCodes"
  shows "Execute srv rnd acc w =
           Some ((srv (calls w),
                  Some (UnexpectedHttpStatusCodeError acc (StatusCode (srv (calls w)))
                          (Status (srv (calls w))) (BodyAsBytes (srv (calls w))))),
                 doRequest srv w)"
  using assms by (subst Execute.simps) (simp add: Let_def isAcceptable_def)

lemma Execute_retry:
  assumes "StatusCode (srv (calls w)) \<notin> set acc"
    and "StatusCode (srv (calls w)) \<in> set retryableStatusCodes"
  shows "Execute srv rnd acc w =
           Execute srv rnd acc
             (sleep (retryAfter (srv (calls w)) (rnd (calls w))) (doRequest srv w))"
  using assms by (subst Execute.simps) (simp add: Let_def isAcceptable_def)

text \<open>
  Induction over a run of \<open>Execute\<close> that returns: one case for each way an iteration
  of the loop can end.
\<close>

lemma Execute_induct [consumes 1, case_names acceptable fatal retry]:
  assumes run: "Execute srv rnd acc w = Some y"
    and acceptable: "\<And>w. StatusCode (srv (calls w)) \<in> set acc \<Longrightarrow>
           P w ((srv (calls w), None), doRequest srv w)"
    and fatal: "\<And>w. StatusCode (srv (calls w)) \<notin> set acc \<Longrightarrow>
           StatusCode (srv (calls w)) \<notin> set retryableStatusCodes \<Longrightarrow>
           P w ((srv (calls w),
                 Some (UnexpectedHttpStatusCodeError acc (StatusCode (srv (calls w)))
                         (Status (srv (calls w))) (BodyAsBytes (srv (calls w))))),
                doRequest srv w)"
    and retry: "\<And>w y. StatusCode (srv (calls w)) \<notin> set acc \<Longrightarrow>
           StatusCode (srv (calls w)) \<in> set retryableStatusCodes \<Longrightarrow>
           P (sleep (retryAfter (srv (calls w)) (rnd (calls w))) (doRequest srv w)) y \<Longrightarrow>
           P w y"
  shows "P w y"
proof -
  have "s = srv \<and> r = rnd \<and> a = acc \<longrightarrow> P w y"
    if "Execute s r a w = Some y" for s r a
  proof (rule Execute.raw_induct
      [where P = "\<lambda>s r a w y. s = srv \<and> r = rnd \<and> a = acc \<longrightarrow> P w y", OF _ that])
    fix f s r a w y
    assume ih: "\<And>s r a w y. f s r a w = Some y \<Longrightarrow>
                  s = srv \<and> r = rnd \<and> a = acc \<longrightarrow> P w y"
      and body: "(let resp = s (calls w); w1 = doRequest s w in
          if isAcceptable a resp then Some ((resp, None), w1)
          else if StatusCode resp \<notin> set retryableStatusCodes then
            Some ((resp, Some (UnexpectedHttpStatusCodeError a
                     (StatusCode resp) (Status resp) (BodyAsBytes resp))), w1)
          else f s r a (sleep (retryAfter resp (r (calls w))) w1)) = Some y"
    show "s = srv \<and> r = rnd \<and> a = acc \<longrightarrow> P w y"
    proof
      assume eq: "s = srv \<and> r = rnd \<and> a = acc"
      consider (A) "StatusCode (srv (calls w)) \<in> set acc"
        | (F) "StatusCode (srv (calls w)) \<notin> set acc"
              "StatusCode (srv (calls w)) \<notin> set retryableStatusCodes"
        | (R) "StatusCode (srv (calls w)) \<notin> set acc"
              "StatusCode (srv (calls w)) \<in> set retryableStatusCodes"
        by blast
      then show "P w y"
      proof cases
        case A
        with body eq have "y = ((srv (calls w), None), doRequest srv w)"
          by (simp add: Let_def isAcceptable_def)
        with acceptable [OF A] show ?thesis by simp
      next
        case F
        with body eq have "y = ((srv (calls w),
                 Some (UnexpectedHttpStatusCodeError acc (StatusCode (srv (calls w)))
                         (Status (srv (calls w))) (BodyAsBytes (srv (calls w))))),
                doRequest srv w)"
          by (simp add: Let_def isAcceptable_def)
        with fatal [OF F] show ?thesis by simp
      next
        case R
        with body eq
        have "f srv rnd acc
                (sleep (retryAfter (srv (calls w)) (rnd (calls w))) (doRequest srv w)) = Some y"
          by (simp add: Let_def isAcceptable_def)
        from ih [OF this]
        have "P (sleep (retryAfter (srv (calls w)) (rnd (calls w))) (doRequest srv w)) y"
          by simp
        with retry [OF R] show ?thesis by simp
      qed
    qed
  qed
  from this [OF run] show ?thesis by simp
qed

text \<open>A run that returns has met a response that is acceptable or not retryable.\<close>

lemma Execute_returns_last_not_retried:
  assumes "Execute srv rnd acc w = Some y"
  shows "\<exists>k. calls w \<le> k \<and>
           (StatusCode (srv k) \<in> set acc \<or> StatusCode (srv k) \<notin> set retryableStatusCodes)"
  using assms
proof (induction rule: Execute_induct)
  case (acceptable w)
  then show ?case by blast
next
  case (fatal w)
  then show ?case by blast
next
  case (retry w y)
  then obtain k where "Suc (calls w) \<le> k"
    "StatusCode (srv k) \<in> set acc \<or> StatusCode (srv k) \<notin> set retryableStatusCodes"
    by (auto simp: sleep_def doRequest_def)
  then show ?case by (intro exI [of _ k]) simp
qed

text \<open>
  In a run that returns, every call but the last was answered with a retryable status
  outside the acceptable set.
\<close>

lemma Execute_calls:
  assumes "Execute srv rnd acc w = Some y"
  shows "calls w < calls (snd y) \<and>
     (\<forall>k. calls w \<le> k \<and> Suc k < calls (snd y) \<longrightarrow>
          StatusCode (srv k) \<in> set retryableStatusCodes \<and> StatusCode (srv k) \<notin> set acc)"
  using assms
proof (induction rule: Execute_induct)
  case (acceptable w)
  then show ?case by (auto simp: doRequest_def)
next
  case (fatal w)
  then show ?case by (auto simp: doRequest_def)
next
  case (retry w y)
  from retry.IH have lt: "Suc (calls w) < calls (snd y)"
    and ih: "\<And>k. Suc (calls w) \<le> k \<Longrightarrow> Suc k < calls (snd y) \<Longrightarrow>
          StatusCode (srv k) \<in> set retryableStatusCodes \<and> StatusCode (srv k) \<notin> set acc"
    by (simp_all add: sleep_def doRequest_def)
  have "StatusCode (srv k) \<in> set retryableStatusCodes \<and> StatusCode (srv k) \<notin> set acc"
    if k: "calls w \<le> k \<and> Suc k < calls (snd y)" for k
  proof (cases "k = calls w")
    case True
    with retry.hyps show ?thesis by simp
  next
    case False
    with k have "Suc (calls w) \<le> k" by simp
    with ih k show ?thesis by simp
  qed
  with lt show ?case by simp
qed

text \<open>Against a server whose every answer is retryable and not acceptable.\<close>

lemma Execute_never_returns:
  assumes "\<And>k. StatusCode (srv k) \<notin> set acc \<and> StatusCode (srv k) \<in> set retryableStatusCodes"
  shows "Execute srv rnd acc w = None"
proof (cases "Execute srv rnd acc w")
  case None
  then show ?thesis .
next
  case (Some y)
  from Execute_returns_last_not_retried [OF this] assms show ?thesis by blast
qed

section \<open>The provisioning loop of CreateApplicationUser\<close>

lemma Contains_notLicensedError: "Contains (Error notLicensedError) ''userNotLicensed''"
  by (simp add: notLicensedError_def Error_def)

text \<open>
  While the callee keeps returning \<open>userNotLicensed\<close>, the loop calls it once per unit of
  its counter, sleeps after each call, and then gives up with the last error.
\<close>

lemma stillUnlicensed_call:
  "stillUnlicensed ctx acceptableStatusCodes w =
     Some ((Some notLicensed, Some notLicensedError), doRequest (\<lambda>k. notLicensed) w)"
  by (simp add: stillUnlicensed_def)

lemma addUserRetry_stillUnlicensed:
  "\<exists>w'. addUserRetry stillUnlicensed ctx (Suc n) err w = Some (Some notLicensedError, w')
        \<and> calls w' = calls w + Suc n"
proof (induction n arbitrary: err w)
  case 0
  show ?case
    by (simp add: stillUnlicensed_call Contains_notLicensedError doRequest_def sleep_def)
next
  case (Suc n)
  let ?w1 = "sleep (10 * Second) (doRequest (\<lambda>k. notLicensed) w)"
  from Suc.IH [of "Some notLicensedError" ?w1]
  obtain w' where run: "addUserRetry stillUnlicensed ctx (Suc n) (Some notLicensedError) ?w1
       = Some (Some notLicensedError, w')"
    and count: "calls w' = calls ?w1 + Suc n"
    by blast
  have "addUserRetry stillUnlicensed ctx (Suc (Suc n)) err w =
          addUserRetry stillUnlicensed ctx (Suc n) (Some notLicensedError) ?w1"
    by (simp add: stillUnlicensed_call Contains_notLicensedError del: addUserRetry.simps
          add: addUserRetry.simps(2) [of stillUnlicensed ctx "Suc n" err w])
  with run have "addUserRetry stillUnlicensed ctx (Suc (Suc n)) err w
                   = Some (Some notLicensedError, w')"
    by simp
  moreover from count have "calls w' = calls w + Suc (Suc n)"
    by (simp add: doRequest_def sleep_def)
  ultimately show ?case by blast
qed

lemma CreateApplicationUser_capped:
  "\<exists>w'. CreateApplicationUser stillUnlicensed ctx w
           = Some ((None, Some notLicensedError), w')
        \<and> calls w' = calls w + 54"
proof -
  have "(6::nat) * 9 = Suc 53"
    by simp
  with addUserRetry_stillUnlicensed [of ctx 53 "Some (ErrorString [])" w]
  show ?thesis by (auto simp: CreateApplicationUser_def)
qed



section \<open>The retry loop: claims C1 to C5\<close>

text \<open>
  C1. Every retry loop is claimed to stop after a capped number of attempts or a bounded
  time. The loop of \<open>Execute\<close> has neither bound: for a caller that accepts 200, against
  a server that answers every call with 503, and likewise against one that answers every
  call with 401, \<open>Execute\<close> never returns.
\<close>

theorem Execute_unbounded_on_persistent_503:
  "Execute (\<lambda>k. reply 503 []) rnd [200] w = None \<and>
   Execute (\<lambda>k. reply 401 []) rnd [200] w = None"
proof
  have "\<And>k. StatusCode ((\<lambda>k. reply 503 []) k) \<notin> set [200] \<and>
            StatusCode ((\<lambda>k. reply 503 []) k) \<in> set retryableStatusCodes"
    by (simp add: reply_def retryableStatusCodes_def)
  then show "Execute (\<lambda>k. reply 503 []) rnd [200] w = None"
    by (rule Execute_never_returns)
next
  have "\<And>k. StatusCode ((\<lambda>k. reply 401 []) k) \<notin> set [200] \<and>
            StatusCode ((\<lambda>k. reply 401 []) k) \<in> set retryableStatusCodes"
    by (simp add: reply_def retryableStatusCodes_def)
  then show "Execute (\<lambda>k. reply 401 []) rnd [200] w = None"
    by (rule Execute_never_returns)
qed

text \<open>
  C2. \<open>Execute\<close> retries only after a response whose status is in
  \<open>retryableStatusCodes\<close>, the set 401, 429, 500, 502, 503, 504. A response whose status
  is neither acceptable nor retryable ends the run at once, with that response and an
  \<open>UnexpectedHttpStatusCodeError\<close>, after exactly one more HTTP call; and in every run
  that returns, each call that was followed by another one had a retryable status.
\<close>

theorem Execute_retries_only_retryable_status:
  "set retryableStatusCodes = {401, 429, 500, 502, 503, 504} \<and>
   (StatusCode (srv (calls w)) \<notin> set acceptableStatusCodes \<and>
    StatusCode (srv (calls w)) \<notin> set retryableStatusCodes \<longrightarrow>
      Execute srv rnd acceptableStatusCodes w =
        Some ((srv (calls w),
               Some (UnexpectedHttpStatusCodeError acceptableStatusCodes
                       (StatusCode (srv (calls w))) (Status (srv (calls w)))
                       (BodyAsBytes (srv (calls w))))),
              doRequest srv w) \<and>
      calls (doRequest srv w) = calls w + 1) \<and>
   (Execute srv rnd acceptableStatusCodes w = Some (res, w') \<and>
    calls w \<le> k \<and> Suc k < calls w' \<longrightarrow>
      StatusCode (srv k) \<in> set retryableStatusCodes)"
proof (intro conjI impI)
  show "set retryableStatusCodes = {401, 429, 500, 502, 503, 504}"
    by (simp add: retryableStatusCodes_def)
next
  assume "StatusCode (srv (calls w)) \<notin> set acceptableStatusCodes \<and>
          StatusCode (srv (calls w)) \<notin> set retryableStatusCodes"
  then show "Execute srv rnd acceptableStatusCodes w =
        Some ((srv (calls w),
               Some (UnexpectedHttpStatusCodeError acceptableStatusCodes
                       (StatusCode (srv (calls w))) (Status (srv (calls w)))
                       (BodyAsBytes (srv (calls w))))),
              doRequest srv w)"
    by (simp add: Execute_fatal)
next
  show "calls (doRequest srv w) = calls w + 1"
    by (simp add: doRequest_def)
next
  assume "Execute srv rnd acceptableStatusCodes w = Some (res, w') \<and>
          calls w \<le> k \<and> Suc k < calls w'"
  with Execute_calls [of srv rnd acceptableStatusCodes w "(res, w')"]
  show "StatusCode (srv k) \<in> set retryableStatusCodes"
    by simp
qed

theorem Execute_retries_only_retryable_status_witness:
  "Execute (script [reply 503 []] (reply 400 ''bad'')) (\<lambda>k. 0) [200] start =
     Some ((reply 400 ''bad'', Some (UnexpectedHttpStatusCodeError [200] 400 [] ''bad'')),
           \<lparr>calls = 2,
            trace = [HttpCall 0 (reply 503 []), Sleep (10 * Second),
                     HttpCall 1 (reply 400 ''bad'')]\<rparr>) \<and>
   StatusCode (script [reply 503 []] (reply 400 ''bad'') 0) \<in> set retryableStatusCodes \<and>
   Execute (script [reply 503 []] (reply 400 ''bad'')) (\<lambda>k. 0) [200]
       \<lparr>calls = 1, trace = [HttpCall 0 (reply 503 []), Sleep (10 * Second)]\<rparr> =
     Some ((reply 400 ''bad'', Some (UnexpectedHttpStatusCodeError [200] 400 [] ''bad'')),
           \<lparr>calls = 2,
            trace = [HttpCall 0 (reply 503 []), Sleep (10 * Second),
                     HttpCall 1 (reply 400 ''bad'')]\<rparr>)"
proof -
  let ?srv = "script [reply 503 []] (reply 400 ''bad'')"
  let ?res = "(reply 400 ''bad'', Some (UnexpectedHttpStatusCodeError [200] 400 [] ''bad''))"
  let ?w' = "\<lparr>calls = 2,
            trace = [HttpCall 0 (reply 503 []), Sleep (10 * Second),
                     HttpCall 1 (reply 400 ''bad'')]\<rparr>"
  let ?w1 = "\<lparr>calls = 1, trace = [HttpCall 0 (reply 503 []), Sleep (10 * Second)]\<rparr>"
  have run: "Execute ?srv (\<lambda>k. 0) [200] start = Some (?res, ?w')"
    by (simp add: Execute.simps run_defs)
  have between: "Execute ?srv (\<lambda>k. 0) [200] start = Some (?res, ?w') \<and>
                 calls start \<le> 0 \<and> Suc 0 < calls ?w'"
    using run by (simp add: start_def)
  have retried: "StatusCode (?srv 0) \<in> set retryableStatusCodes"
    using Execute_retries_only_retryable_status
        [where srv = ?srv and rnd = "\<lambda>k. 0" and acceptableStatusCodes = "[200]"
           and w = start and res = ?res and w' = ?w' and k = 0,
         THEN conjunct2, THEN conjunct2, THEN mp, OF between] .
  have last: "StatusCode (?srv (calls ?w1)) \<notin> set [200] \<and>
              StatusCode (?srv (calls ?w1)) \<notin> set retryableStatusCodes"
    by (simp add: run_defs)
  have fatal: "Execute ?srv (\<lambda>k. 0) [200] ?w1 = Some (?res, ?w')"
    using Execute_retries_only_retryable_status
        [where srv = ?srv and rnd = "\<lambda>k. 0" and acceptableStatusCodes = "[200]"
           and w = ?w1, THEN conjunct2, THEN conjunct1, THEN mp, OF last]
    by (simp add: run_defs)
  from run retried fatal show ?thesis by simp
qed

text \<open>
  C3. When the status of the response is in the caller's acceptable set, \<open>Execute\<close>
  returns that response (and with it its body) with a nil error after exactly one HTTP
  call and no sleep, whatever the status is: the acceptable set is consulted before the
  retryable one.
\<close>

theorem Execute_acceptable_status_one_call:
  assumes "StatusCode (srv (calls w)) \<in> set acceptableStatusCodes"
  shows "Execute srv rnd acceptableStatusCodes w =
           Some ((srv (calls w), None), doRequest srv w) \<and>
         calls (doRequest srv w) = calls w + 1 \<and>
         trace (doRequest srv w) = trace w @ [HttpCall (calls w) (srv (calls w))]"
  using assms by (simp add: Execute_acceptable doRequest_def)

theorem Execute_acceptable_status_one_call_witness:
  "StatusCode (script [] (reply 404 ''gone'') (calls start)) \<in> set [200, 404] \<and>
   Execute (script [] (reply 404 ''gone'')) (\<lambda>k. 0) [200, 404] start =
     Some ((reply 404 ''gone'', None),
           \<lparr>calls = 1, trace = [HttpCall 0 (reply 404 ''gone'')]\<rparr>)"
  using Execute_acceptable_status_one_call
    [of "script [] (reply 404 ''gone'')" start "[200, 404]" "\<lambda>k. 0"]
  by (simp add: run_defs)

text \<open>
  C4. A retry after 401 is claimed to force a token refresh first, and to happen at most
  once per request. In the loop 401 is one more entry of \<open>retryableStatusCodes\<close>: the
  run below, against a server that answers 401 twice and then 200, consists of the three
  HTTP calls and the two default waits between them. The request is sent again after each
  401, twice in all, and nothing but a sleep stands between a 401 and the next call.
\<close>

theorem Execute_resubmits_after_401:
  "Execute (script [reply 401 [], reply 401 []] (reply 200 ''ok'')) (\<lambda>k. 0) [200] start =
     Some ((reply 200 ''ok'', None),
           \<lparr>calls = 3,
            trace = [HttpCall 0 (reply 401 []), Sleep (10 * Second),
                     HttpCall 1 (reply 401 []), Sleep (10 * Second),
                     HttpCall 2 (reply 200 ''ok'')]\<rparr>)"
  by (simp add: Execute.simps run_defs)

text \<open>The default wait lies between 10 and 19 seconds, whatever the random source yields.\<close>

lemma DefaultRetryAfter_range:
  "10 * Second \<le> DefaultRetryAfter raw \<and> DefaultRetryAfter raw \<le> 19 * Second"
proof -
  have "raw mod 10 < 10"
    by simp
  then show ?thesis
    by (simp add: DefaultRetryAfter_def Intn_def Second_def)
qed

text \<open>The specification's delay grows from attempt 0 to attempt 1 unless the cap stops it.\<close>

lemma exponentialBackoff_grows:
  assumes "0 < base" "2 * base \<le> maxDelay" "0 \<le> j0" "j0 < 1" "0 \<le> j1"
  shows "exponentialBackoff base maxDelay 0 j0 < exponentialBackoff base maxDelay 1 j1"
proof -
  have "exponentialBackoff base maxDelay 0 j0 = base * (1 + j0)"
    using assms by (simp add: exponentialBackoff_def min_def)
  also have "\<dots> < base * 2"
    using assms by simp
  also have "\<dots> \<le> (2 * base) * (1 + j1)"
    using assms by (simp add: algebra_simps)
  also have "\<dots> = exponentialBackoff base maxDelay 1 j1"
    using assms by (simp add: exponentialBackoff_def min_def)
  finally show ?thesis .
qed

text \<open>
  C5. Without a \<open>Retry-After\<close> header the delay is claimed to be
  \<open>min(maxDelay, base * 2^attempt) * (1 + jitterFraction)\<close>, growing with the attempt
  number. The loop waits \<open>DefaultRetryAfter\<close>, which does not see the attempt number and
  always lies between 10 and 19 seconds. In the run below the wait after the first
  failure is 19 seconds and the wait after the second is 10 seconds; no base, no cap that
  leaves room for one doubling and no jitter fractions in \<open>[0, 1)\<close> make the formula
  give these two delays.
\<close>

theorem DefaultRetryAfter_ignores_attempt:
  "Execute (script [reply 503 [], reply 503 []] (reply 200 ''ok''))
       (\<lambda>k. if k = 0 then 9 else 0) [200] start =
     Some ((reply 200 ''ok'', None),
           \<lparr>calls = 3,
            trace = [HttpCall 0 (reply 503 []), Sleep (19 * Second),
                     HttpCall 1 (reply 503 []), Sleep (10 * Second),
                     HttpCall 2 (reply 200 ''ok'')]\<rparr>) \<and>
   (\<forall>raw. 10 * Second \<le> DefaultRetryAfter raw \<and> DefaultRetryAfter raw \<le> 19 * Second) \<and>
   \<not> (\<exists>base maxDelay j0 j1.
         0 < base \<and> 2 * base \<le> maxDelay \<and> 0 \<le> j0 \<and> j0 < 1 \<and> 0 \<le> j1 \<and> j1 < 1 \<and>
         exponentialBackoff base maxDelay 0 j0 = real_of_int (19 * Second) \<and>
         exponentialBackoff base maxDelay 1 j1 = real_of_int (10 * Second))"
proof (intro conjI)
  show "Execute (script [reply 503 [], reply 503 []] (reply 200 ''ok''))
       (\<lambda>k. if k = 0 then 9 else 0) [200] start =
     Some ((reply 200 ''ok'', None),
           \<lparr>calls = 3,
            trace = [HttpCall 0 (reply 503 []), Sleep (19 * Second),
                     HttpCall 1 (reply 503 []), Sleep (10 * Second),
                     HttpCall 2 (reply 200 ''ok'')]\<rparr>)"
    by (simp add: Execute.simps run_defs)
next
  show "\<forall>raw. 10 * Second \<le> DefaultRetryAfter raw \<and> DefaultRetryAfter raw \<le> 19 * Second"
    by (simp add: DefaultRetryAfter_range)
next
  show "\<not> (\<exists>base maxDelay j0 j1.
         0 < base \<and> 2 * base \<le> maxDelay \<and> 0 \<le> j0 \<and> j0 < 1 \<and> 0 \<le> j1 \<and> j1 < 1 \<and>
         exponentialBackoff base maxDelay 0 j0 = real_of_int (19 * Second) \<and>
         exponentialBackoff base maxDelay 1 j1 = real_of_int (10 * Second))"
  proof
    assume "\<exists>base maxDelay j0 j1.
         0 < base \<and> 2 * base \<le> maxDelay \<and> 0 \<le> j0 \<and> j0 < 1 \<and> 0 \<le> j1 \<and> j1 < 1 \<and>
         exponentialBackoff base maxDelay 0 j0 = real_of_int (19 * Second) \<and>
         exponentialBackoff base maxDelay 1 j1 = real_of_int (10 * Second)"
    then obtain base maxDelay j0 j1
      where h: "0 < base" "2 * base \<le> maxDelay" "0 \<le> j0" "j0 < 1" "0 \<le> j1"
        and e: "exponentialBackoff base maxDelay 0 j0 = real_of_int (19 * Second)"
               "exponentialBackoff base maxDelay 1 j1 = real_of_int (10 * Second)"
      by blast
    from exponentialBackoff_grows [OF h] e show False
      by (simp add: Second_def)
  qed
qed

section \<open>Contexts that are already done: claim C6\<close>



section \<open>The poller: claim C7\<close>

text \<open>Whenever the poll loop returns, the operation is in a final state.\<close>

lemma pollUntilDone_returns_final:
  assumes run: "pollUntilDone srv pollInterval maxWait p = Some y"
  shows "terminal (state (snd y)) \<or>
         (state (snd y) = TimedOut \<and> maxWait \<le> waited (snd y))"
proof (rule pollUntilDone.raw_induct
    [where P = "\<lambda>srv i m p y. terminal (state (snd y)) \<or>
                  (state (snd y) = TimedOut \<and> m \<le> waited (snd y))",
     OF _ run])
  fix f srv i m p y
  assume ih: "\<And>srv i m p y. f srv i m p = Some y \<Longrightarrow>
      terminal (state (snd y)) \<or> (state (snd y) = TimedOut \<and> m \<le> waited (snd y))"
    and body: "(if m \<le> waited p then Some (Inl TimeoutError, enter TimedOut p)
      else
        (let resp = srv (polls p); p1 = p\<lparr>polls := polls p + 1\<rparr> in
         if PollStatusCode resp = 409 \<or> PollPhase resp = PhaseRunning then
           f srv i m ((enter Running p1)\<lparr>waited := waited p1 + i\<rparr>)
         else if PollPhase resp = PhaseSucceeded then
           Some (Inr (PollBody resp), enter Succeeded p1)
         else if PollPhase resp = PhaseFailed then
           Some (Inl (OperationFailedError (PollBody resp)), enter Failed p1)
         else Some (Inl (OperationCanceledError (PollBody resp)), enter Canceled p1))) = Some y"
  show "terminal (state (snd y)) \<or> (state (snd y) = TimedOut \<and> m \<le> waited (snd y))"
  proof (cases "m \<le> waited p")
    case True
    with body show ?thesis by (auto simp: enter_def)
  next
    case False
    note budget = this
    show ?thesis
    proof (cases "PollStatusCode (srv (polls p)) = 409 \<or> PollPhase (srv (polls p)) = PhaseRunning")
      case True
      with budget body
      have "f srv i m ((enter Running (p\<lparr>polls := polls p + 1\<rparr>))
                         \<lparr>waited := waited (p\<lparr>polls := polls p + 1\<rparr>) + i\<rparr>) = Some y"
        by (simp add: Let_def)
      from ih [OF this] show ?thesis .
    next
      case False
      with budget body show ?thesis
        by (auto simp: Let_def enter_def terminal_def split: if_splits)
    qed
  qed
qed

text \<open>
  C7. Fed the poll responses 202 Running, 202 Running, 200 Succeeded, with a wait budget
  that covers the two sleeps, the poller goes through \<open>Created\<close>, \<open>Running\<close>,
  \<open>Running\<close>, \<open>Succeeded\<close> and returns the body of the last response. And whatever
  the server answers, when the poll loop returns the operation is \<open>Succeeded\<close>,
  \<open>Failed\<close> or \<open>Canceled\<close>, or it is \<open>TimedOut\<close> and the time waited has reached the
  maximum.
\<close>

theorem pollUntilDone_scripted_run:
  assumes "0 \<le> pollInterval" and "2 * pollInterval < maxWait"
  shows "pollUntilDone
           (pollScript [poll 202 PhaseRunning b0, poll 202 PhaseRunning b1]
              (poll 200 PhaseSucceeded final))
           pollInterval maxWait newPoller =
         Some (Inr final,
               \<lparr>state = Succeeded, history = [Created, Running, Running, Succeeded],
                polls = 3, waited = 2 * pollInterval\<rparr>) \<and>
         (\<forall>srv p y. pollUntilDone srv pollInterval maxWait p = Some y \<longrightarrow>
            terminal (state (snd y)) \<or>
            (state (snd y) = TimedOut \<and> maxWait \<le> waited (snd y)))"
proof (intro conjI allI impI)
  show "pollUntilDone
           (pollScript [poll 202 PhaseRunning b0, poll 202 PhaseRunning b1]
              (poll 200 PhaseSucceeded final))
           pollInterval maxWait newPoller =
         Some (Inr final,
               \<lparr>state = Succeeded, history = [Created, Running, Running, Succeeded],
                polls = 3, waited = 2 * pollInterval\<rparr>)"
    using assms
    by (simp add: pollUntilDone.simps poll_def pollScript_def newPoller_def enter_def Let_def)
next
  fix srv p y
  assume "pollUntilDone srv pollInterval maxWait p = Some y"
  then show "terminal (state (snd y)) \<or>
             (state (snd y) = TimedOut \<and> maxWait \<le> waited (snd y))"
    by (rule pollUntilDone_returns_final)
qed

theorem pollUntilDone_scripted_run_witness:
  "(0::int) \<le> 5 * Second \<and> 2 * (5 * Second) < 60 * Second \<and>
   pollUntilDone
     (pollScript [poll 202 PhaseRunning ''running'', poll 202 PhaseRunning ''running'']
        (poll 200 PhaseSucceeded ''done''))
     (5 * Second) (60 * Second) newPoller =
     Some (Inr ''done'',
           \<lparr>state = Succeeded, history = [Created, Running, Running, Succeeded],
            polls = 3, waited = 10 * Second\<rparr>) \<and>
   terminal Succeeded"
proof -
  have i: "(0::int) \<le> 5 * Second" and m: "2 * (5 * Second) < 60 * Second"
    by (simp_all add: Second_def)
  from pollUntilDone_scripted_run [OF i m, of "''running''" "''running''" "''done''"] i m
  show ?thesis by (simp add: terminal_def)
qed

section \<open>The callers: claims C8 to C10\<close>

text \<open>
  C8. A call of \<open>ExecuteApiRequest\<close> without a scope is claimed to return an error. It
  panics with the message \<open>scope or evironment_id must be provided\<close>, whatever the other
  arguments are, before any HTTP call is made.
\<close>

theorem ExecuteApiRequest_nil_scope_panics:
  "ExecuteApiRequest srv rnd None expectedStatusCodes w =
     Some (Panicked (PanicMessage ''scope or evironment_id must be provided''))"
  by (simp add: ExecuteApiRequest_def)

text \<open>
  C9. \<open>CreateWebsite\<close> hands \<open>Execute\<close> the acceptable set 401, 400, 202, 404. For a
  response with status 400, 401 or 404 \<open>Execute\<close> returns it with a nil error, and
  \<open>CreateWebsite\<close> then returns the error \<open>unexpected status code:\<close> followed by the raw
  body. \<open>CreateWebsite\<close> returns nil exactly when \<open>Execute\<close> returned a response of
  status 202 with a nil error.
\<close>

theorem CreateWebsite_nil_only_for_202:
  "(StatusCode (srv (calls w)) \<in> {400, 401, 404} \<longrightarrow>
      Execute srv rnd [401, 400, 202, 404] w = Some ((srv (calls w), None), doRequest srv w) \<and>
      CreateWebsite srv rnd w =
        Some (Some (ErrorString (''unexpected status code: '' @ BodyAsBytes (srv (calls w)))),
              doRequest srv w)) \<and>
   ((CreateWebsite srv rnd w = Some (None, w')) =
      (\<exists>resp. Execute srv rnd [401, 400, 202, 404] w = Some ((resp, None), w') \<and>
              StatusCode resp = 202))"
proof (intro conjI impI)
  assume st: "StatusCode (srv (calls w)) \<in> {400, 401, 404}"
  then have acc: "StatusCode (srv (calls w)) \<in> set [401, 400, 202, 404]"
    by auto
  from Execute_acceptable [of srv w "[401, 400, 202, 404]" rnd, OF acc]
  show run: "Execute srv rnd [401, 400, 202, 404] w =
               Some ((srv (calls w), None), doRequest srv w)" .
  from st have "StatusCode (srv (calls w)) \<noteq> 202"
    by auto
  with run show "CreateWebsite srv rnd w =
        Some (Some (ErrorString (''unexpected status code: '' @ BodyAsBytes (srv (calls w)))),
              doRequest srv w)"
    by (simp add: CreateWebsite_def)
next
  show "(CreateWebsite srv rnd w = Some (None, w')) =
      (\<exists>resp. Execute srv rnd [401, 400, 202, 404] w = Some ((resp, None), w') \<and>
              StatusCode resp = 202)"
    by (auto simp: CreateWebsite_def split: option.splits if_splits)
qed

theorem CreateWebsite_nil_only_for_202_witness:
  "StatusCode (script [] (reply 404 ''no such environment'') (calls start)) \<in> {400, 401, 404} \<and>
   CreateWebsite (script [] (reply 404 ''no such environment'')) (\<lambda>k. 0) start =
     Some (Some (ErrorString ''unexpected status code: no such environment''),
           \<lparr>calls = 1, trace = [HttpCall 0 (reply 404 ''no such environment'')]\<rparr>) \<and>
   CreateWebsite (script [] (reply 202 [])) (\<lambda>k. 0) start =
     Some (None, \<lparr>calls = 1, trace = [HttpCall 0 (reply 202 [])]\<rparr>)"
proof -
  let ?srv = "script [] (reply 404 ''no such environment'')"
  have st: "StatusCode (?srv (calls start)) \<in> {400, 401, 404}"
    by (simp add: run_defs)
  from CreateWebsite_nil_only_for_202
         [where srv = ?srv and w = start and rnd = "\<lambda>k. 0", THEN conjunct1, THEN mp, OF st]
  have refused: "CreateWebsite ?srv (\<lambda>k. 0) start =
     Some (Some (ErrorString ''unexpected status code: no such environment''),
           \<lparr>calls = 1, trace = [HttpCall 0 (reply 404 ''no such environment'')]\<rparr>)"
    by (simp add: run_defs)
  have accepted: "CreateWebsite (script [] (reply 202 [])) (\<lambda>k. 0) start =
     Some (None, \<lparr>calls = 1, trace = [HttpCall 0 (reply 202 [])]\<rparr>)"
    by (simp add: CreateWebsite_def Execute.simps run_defs)
  from st refused accepted show ?thesis by simp
qed

text \<open>
  C10. For every environment id whose form after removing all hyphens has fewer than two
  bytes, \<open>BuildEnvironmentHostUri\<close> panics on the slice expression
  \<open>envId[len(envId)-2:]\<close>, its bound \<open>len(envId) - 2\<close> being negative; nothing is
  checked before the slice and no error is returned.
\<close>

theorem BuildEnvironmentHostUri_short_id_panics:
  assumes "length (ReplaceAll environmentId (CHR ''-'') []) < 2"
  shows "BuildEnvironmentHostUri environmentId powerPlatformUrl =
           Panicked (SliceBoundsOutOfRange
             (int (length (ReplaceAll environmentId (CHR ''-'') [])) - 2))"
  using assms by (simp add: BuildEnvironmentHostUri_def slice_from_def Let_def)

theorem BuildEnvironmentHostUri_short_id_panics_witness:
  "length (ReplaceAll ''-a-'' (CHR ''-'') []) < 2 \<and>
   BuildEnvironmentHostUri ''-a-'' ''api.powerplatform.com'' =
     Panicked (SliceBoundsOutOfRange (- 1)) \<and>
   BuildEnvironmentHostUri [] ''api.powerplatform.com'' =
     Panicked (SliceBoundsOutOfRange (- 2))"
  using BuildEnvironmentHostUri_short_id_panics [of "''-a-''" "''api.powerplatform.com''"]
    BuildEnvironmentHostUri_short_id_panics [of "[]" "''api.powerplatform.com''"]
  by (simp add: ReplaceAll_def)

end
